theory Spec2Isabelle
  imports Complex_Main "HOL-Library.Sublist" "HOL-Library.Log_Nat"
begin

section \<open>Data model of \<^verbatim>\<open>Tracing.py\<close>\<close>

text \<open>
  The filtering span processor reads four things of a finished span: its name, its kind,
  its two timestamps (integers, nanoseconds) and its attribute mapping.  The kinds are
  those of OpenTelemetry's \<^verbatim>\<open>SpanKind\<close> enumeration.  An attribute value is a text, a bool,
  a number or a sequence of such; a float is carried as a rational, which is enough here
  because the processor only ever compares an attribute value with configured texts.
\<close>

datatype span_kind = INTERNAL | SERVER | CLIENT | PRODUCER | CONSUMER

datatype attr_value =
  AStr string | ABool bool | AInt int | AFloat rat | ASeq "attr_value list"

record span =
  name :: string
  kind :: span_kind
  start_time :: int
  end_time :: int
  attributes :: "string \<rightharpoonup> attr_value"

text \<open>
  \<^verbatim>\<open>filter_criteria\<close> is a Python dict read only through \<^verbatim>\<open>.get(key)\<close> on five fixed
  keys; \<^verbatim>\<open>.get\<close> answers \<^verbatim>\<open>None\<close> for a key that is not there.  The dict is therefore
  a record of five optional values, \<open>None\<close> standing for a missing key (or a key bound to
  \<^verbatim>\<open>None\<close>).  The collections are lists, as in the commented examples of the source; only
  iteration and \<^verbatim>\<open>in\<close> are used on them.
\<close>

record criteria =
  include_names :: "string list option"
  operation_names :: "string list option"
  min_duration_ms :: "rat option"
  exclude_operations :: "string list option"
  exclude_span_kinds :: "span_kind list option"

definition empty_criteria :: criteria where
  "empty_criteria =
     \<lparr>include_names = None, operation_names = None, min_duration_ms = None,
      exclude_operations = None, exclude_span_kinds = None\<rparr>"

subsection \<open>The wrapped exporter\<close>

text \<open>
  The exporter is an external object with three methods.  Its behaviour is a parameter
  of the model: every method takes the exporter's internal state and gives back the new
  state together with either a raised exception (\<open>Inl\<close>) or the returned value
  (\<open>Inr\<close>).  Beside its internal state the exporter object carries the list of the calls
  it has received, oldest first, so that the number and the arguments of the calls made
  by the processor can be stated.
\<close>

datatype export_result = SUCCESS | FAILURE

datatype call = Export "span list" | Shutdown | ForceFlush int

record ('e, 'x) span_exporter =
  export_impl :: "span list \<Rightarrow> 'e \<Rightarrow> 'e \<times> ('x + export_result)"
  shutdown_impl :: "'e \<Rightarrow> 'e \<times> ('x + unit)"
  force_flush_impl :: "int \<Rightarrow> 'e \<Rightarrow> 'e \<times> ('x + bool)"

record 'e exporter_obj =
  calls :: "call list"
  est :: 'e

definition exporter_export ::
  "('e, 'x) span_exporter \<Rightarrow> span list \<Rightarrow> 'e exporter_obj \<Rightarrow> 'e exporter_obj \<times> ('x + export_result)"
where
  "exporter_export ops batch ex =
     (case export_impl ops batch (est ex) of
        (e', r) \<Rightarrow> (\<lparr>calls = calls ex @ [Export batch], est = e'\<rparr>, r))"

definition exporter_shutdown ::
  "('e, 'x) span_exporter \<Rightarrow> 'e exporter_obj \<Rightarrow> 'e exporter_obj \<times> ('x + unit)"
where
  "exporter_shutdown ops ex =
     (case shutdown_impl ops (est ex) of
        (e', r) \<Rightarrow> (\<lparr>calls = calls ex @ [Shutdown], est = e'\<rparr>, r))"

definition exporter_force_flush ::
  "('e, 'x) span_exporter \<Rightarrow> int \<Rightarrow> 'e exporter_obj \<Rightarrow> 'e exporter_obj \<times> ('x + bool)"
where
  "exporter_force_flush ops timeout_millis ex =
     (case force_flush_impl ops timeout_millis (est ex) of
        (e', r) \<Rightarrow> (\<lparr>calls = calls ex @ [ForceFlush timeout_millis], est = e'\<rparr>, r))"

section \<open>\<^verbatim>\<open>FilteringSpanProcessor\<close>\<close>

record 'e processor =
  exporter :: "'e exporter_obj"
  filter_criteria :: criteria

text \<open>
  \<^verbatim>\<open>__init__\<close>: \<^verbatim>\<open>self.filter_criteria = filter_criteria or {}\<close>.  The argument is falsy
  when it is \<^verbatim>\<open>None\<close> or a dict without keys.
\<close>

definition init :: "'e exporter_obj \<Rightarrow> criteria option \<Rightarrow> 'e processor" where
  "init ex fc =
     \<lparr>exporter = ex,
      filter_criteria =
        (case fc of
           None \<Rightarrow> empty_criteria
         | Some c \<Rightarrow> if c = empty_criteria then empty_criteria else c)\<rparr>"

text \<open>\<^verbatim>\<open>on_start\<close> is \<^verbatim>\<open>pass\<close>.\<close>

definition on_start :: "'e processor \<Rightarrow> span \<Rightarrow> 'c \<Rightarrow> 'e processor" where
  "on_start p s parent_context = p"

text \<open>
  The operation attribute is read as \<^verbatim>\<open>span.attributes.get("gen_ai.operation.name")\<close>,
  which is \<^verbatim>\<open>None\<close> when the key is missing.  \<^verbatim>\<open>operation in names\<close> compares it with
  every configured text by \<^verbatim>\<open>==\<close>; \<^verbatim>\<open>None\<close>, a bool, a number and a sequence equal no
  text.
\<close>

definition operation_in :: "attr_value option \<Rightarrow> string list \<Rightarrow> bool" where
  "operation_in operation names =
     (case operation of Some (AStr v) \<Rightarrow> v \<in> set names | _ \<Rightarrow> False)"

text \<open>
  \<^verbatim>\<open>duration_ms = (span.end_time - span.start_time) / 1_000_000\<close>.  Python's \<^verbatim>\<open>/\<close> on
  two integers gives a float: the double nearest to the exact quotient, ties going to
  the even significand.  A double is a rational, so the float is modelled as the
  rational it denotes.  For a positive \<open>x\<close> with \<open>2^e \<le> x < 2^(e+1)\<close> the doubles around
  \<open>x\<close> are the multiples of \<open>2^(e-52)\<close>, and \<open>x\<close> goes to the nearest of them.  The
  exponent range of a double is left out: a quotient is never below \<open>10^-6\<close> in size
  unless it is zero, and a result beyond the largest double, where Python raises
  \<^verbatim>\<open>OverflowError\<close>, needs timestamps more than \<open>10^313\<close> nanoseconds apart.
\<close>

definition round_half_even :: "rat \<Rightarrow> int" where
  "round_half_even x =
     (let f = \<lfloor>x\<rfloor>; d = x - of_int f in
      if d < 1 / 2 then f else if 1 / 2 < d then f + 1 else if even f then f else f + 1)"

definition binade :: "rat \<Rightarrow> int" where
  "binade x =
     (case quotient_of x of
        (a, b) \<Rightarrow> let e = bitlen a - bitlen b in if 2 powi e \<le> x then e else e - 1)"

definition to_double :: "rat \<Rightarrow> rat" where
  "to_double x =
     (if x = 0 then 0
      else let u = 2 powi (binade \<bar>x\<bar> - 52)
           in sgn x * of_int (round_half_even (\<bar>x\<bar> / u)) * u)"

definition duration_ms :: "span \<Rightarrow> rat" where
  "duration_ms s = to_double (of_int (end_time s - start_time s) / 1000000)"

text \<open>
  The last statement of \<^verbatim>\<open>on_end\<close>, \<^verbatim>\<open>self.exporter.export([span])\<close>: one call of the
  exporter's \<^verbatim>\<open>export\<close> on the list that holds the span and nothing else.  The returned
  value is thrown away; an exception of the exporter goes on to the caller.
\<close>

definition export_span ::
  "('e, 'x) span_exporter \<Rightarrow> 'e processor \<Rightarrow> span \<Rightarrow> 'e processor \<times> ('x + unit)"
where
  "export_span ops p s =
     (case exporter_export ops [s] (exporter p) of
        (ex', r) \<Rightarrow>
          (p\<lparr>exporter := ex'\<rparr>, case r of Inl x \<Rightarrow> Inl x | Inr _ \<Rightarrow> Inr ()))"

text \<open>
  \<^verbatim>\<open>on_end\<close>.  Each of the five checks is guarded by the truth value of
  \<^verbatim>\<open>self.filter_criteria.get(key)\<close>: \<^verbatim>\<open>None\<close>, an empty collection and the number zero are
  falsy.  A failing check returns at once (\<^verbatim>\<open>None\<close>, nothing is called).  \<^verbatim>\<open>name in span.name\<close>
  on two texts is containment of a contiguous piece, \<^const>\<open>sublist\<close>.  The comparison of the
  float \<^verbatim>\<open>duration_ms\<close> with the configured number is exact in Python, so it is the
  comparison of the two rationals.
\<close>

definition on_end ::
  "('e, 'x) span_exporter \<Rightarrow> 'e processor \<Rightarrow> span \<Rightarrow> 'e processor \<times> ('x + unit)"
where
  "on_end ops p s =
     (let fc = filter_criteria p in
      if (case include_names fc of
            None \<Rightarrow> False
          | Some ns \<Rightarrow> ns \<noteq> [] \<and> \<not> list_ex (\<lambda>n. sublist n (name s)) ns)
      then (p, Inr ())
      else if (case operation_names fc of
            None \<Rightarrow> False
          | Some ns \<Rightarrow> ns \<noteq> [] \<and>
              \<not> operation_in (attributes s ''gen_ai.operation.name'') ns)
      then (p, Inr ())
      else if (case min_duration_ms fc of
            None \<Rightarrow> False
          | Some m \<Rightarrow> m \<noteq> 0 \<and> duration_ms s < m)
      then (p, Inr ())
      else if (case exclude_operations fc of
            None \<Rightarrow> False
          | Some ns \<Rightarrow> ns \<noteq> [] \<and>
              operation_in (attributes s ''gen_ai.operation.name'') ns)
      then (p, Inr ())
      else if (case exclude_span_kinds fc of
            None \<Rightarrow> False
          | Some ks \<Rightarrow> ks \<noteq> [] \<and> kind s \<in> set ks)
      then (p, Inr ())
      else export_span ops p s)"

text \<open>\<^verbatim>\<open>shutdown\<close>: \<^verbatim>\<open>self.exporter.shutdown()\<close>, the value is thrown away.\<close>

definition shutdown :: "('e, 'x) span_exporter \<Rightarrow> 'e processor \<Rightarrow> 'e processor \<times> ('x + unit)" where
  "shutdown ops p =
     (case exporter_shutdown ops (exporter p) of
        (ex', r) \<Rightarrow>
          (p\<lparr>exporter := ex'\<rparr>, case r of Inl x \<Rightarrow> Inl x | Inr _ \<Rightarrow> Inr ()))"

text \<open>
  \<^verbatim>\<open>force_flush\<close>: \<^verbatim>\<open>return self.exporter.force_flush(timeout_millis)\<close>; the parameter
  defaults to 30000.
\<close>

definition force_flush ::
  "('e, 'x) span_exporter \<Rightarrow> 'e processor \<Rightarrow> int \<Rightarrow> 'e processor \<times> ('x + bool)"
where
  "force_flush ops p timeout_millis =
     (case exporter_force_flush ops timeout_millis (exporter p) of
        (ex', r) \<Rightarrow> (p\<lparr>exporter := ex'\<rparr>, r))"

definition force_flush_default ::
  "('e, 'x) span_exporter \<Rightarrow> 'e processor \<Rightarrow> 'e processor \<times> ('x + bool)"
where
  "force_flush_default ops p = force_flush ops p 30000"

text \<open>
  What a caller sees of one \<^verbatim>\<open>on_end\<close> of a processor built by \<^verbatim>\<open>__init__\<close> from an
  exporter and a configuration: the exporter afterwards, and the exception or the
  normal return.
\<close>

definition on_end_outcome ::
  "('e, 'x) span_exporter \<Rightarrow> 'e exporter_obj \<Rightarrow> criteria \<Rightarrow> span \<Rightarrow> 'e exporter_obj \<times> ('x + unit)"
where
  "on_end_outcome ops ex fc s =
     (case on_end ops (init ex (Some fc)) s of (q, r) \<Rightarrow> (exporter q, r))"

section \<open>The five predicates\<close>

text \<open>
  Each predicate is optional: a criterion that is not set is not applied.  In the words
  of the specification,
  \<^item> \<open>include_names\<close>, when set and non-empty: the name of the span contains at least one
    of the substrings;
  \<^item> \<open>operation_names\<close>, when set: the operation attribute is present and is one of the
    allowed identifiers;
  \<^item> \<open>min_duration_ms\<close>, when set: the duration \<open>(end - start) / 1_000_000\<close> is not less
    than the floor;
  \<^item> \<open>exclude_operations\<close>, when set: the operation attribute is not one of the
    identifiers;
  \<^item> \<open>exclude_span_kinds\<close>, when set: the kind is not one of the kinds.
\<close>

definition passes_include_names :: "criteria \<Rightarrow> span \<Rightarrow> bool" where
  "passes_include_names fc s =
     (case include_names fc of
        None \<Rightarrow> True
      | Some ns \<Rightarrow> ns = [] \<or> list_ex (\<lambda>n. sublist n (name s)) ns)"

definition spec_passes_operation_names :: "criteria \<Rightarrow> span \<Rightarrow> bool" where
  "spec_passes_operation_names fc s =
     (case operation_names fc of
        None \<Rightarrow> True
      | Some ns \<Rightarrow>
          (case attributes s ''gen_ai.operation.name'' of
             None \<Rightarrow> False
           | Some v \<Rightarrow> v \<in> set (map AStr ns)))"

definition spec_passes_min_duration_ms :: "criteria \<Rightarrow> span \<Rightarrow> bool" where
  "spec_passes_min_duration_ms fc s =
     (case min_duration_ms fc of
        None \<Rightarrow> True
      | Some m \<Rightarrow> m \<le> of_int (end_time s - start_time s) / 1000000)"

definition passes_exclude_operations :: "criteria \<Rightarrow> span \<Rightarrow> bool" where
  "passes_exclude_operations fc s =
     (case exclude_operations fc of
        None \<Rightarrow> True
      | Some ns \<Rightarrow>
          (case attributes s ''gen_ai.operation.name'' of
             None \<Rightarrow> True
           | Some v \<Rightarrow> v \<notin> set (map AStr ns)))"

definition passes_exclude_span_kinds :: "criteria \<Rightarrow> span \<Rightarrow> bool" where
  "passes_exclude_span_kinds fc s =
     (case exclude_span_kinds fc of
        None \<Rightarrow> True
      | Some ks \<Rightarrow> kind s \<notin> set ks)"

definition spec_all_predicates_pass :: "criteria \<Rightarrow> span \<Rightarrow> bool" where
  "spec_all_predicates_pass fc s \<longleftrightarrow>
     passes_include_names fc s \<and> spec_passes_operation_names fc s \<and>
     spec_passes_min_duration_ms fc s \<and> passes_exclude_operations fc s \<and>
     passes_exclude_span_kinds fc s"

text \<open>
  The code differs from these words in two of the five.  An \<open>operation_names\<close> that is
  set to an empty collection is skipped, like an empty \<open>include_names\<close>, and so is a
  floor of 0; and the duration that is compared with the floor is the float that
  Python computes, \<^const>\<open>duration_ms\<close>.  These are the two predicates as the code applies
  them, and their conjunction with the other three.
\<close>

definition passes_operation_names :: "criteria \<Rightarrow> span \<Rightarrow> bool" where
  "passes_operation_names fc s =
     (case operation_names fc of
        None \<Rightarrow> True
      | Some ns \<Rightarrow> ns = [] \<or>
          (case attributes s ''gen_ai.operation.name'' of
             None \<Rightarrow> False
           | Some v \<Rightarrow> v \<in> set (map AStr ns)))"

definition passes_min_duration_ms :: "criteria \<Rightarrow> span \<Rightarrow> bool" where
  "passes_min_duration_ms fc s =
     (case min_duration_ms fc of
        None \<Rightarrow> True
      | Some m \<Rightarrow> m = 0 \<or> m \<le> duration_ms s)"


section \<open>Concrete inputs\<close>

text \<open>
  An exporter to run the processor on: it counts the spans it has taken, refuses
  batches once it is shut down, and its \<^verbatim>\<open>shutdown\<close> may be repeated.
\<close>

definition counting_exporter :: "(nat \<times> bool, string) span_exporter" where
  "counting_exporter =
     \<lparr>export_impl = (\<lambda>batch (n, down).
        if down then ((n, down), Inr FAILURE) else ((n + length batch, down), Inr SUCCESS)),
      shutdown_impl = (\<lambda>(n, down). ((n, True), Inr ())),
      force_flush_impl = (\<lambda>t (n, down). ((n, down), Inr (\<not> down)))\<rparr>"

definition fresh :: "(nat \<times> bool) exporter_obj" where
  "fresh = \<lparr>calls = [], est = (0, False)\<rparr>"

definition mk_span :: "string \<Rightarrow> span_kind \<Rightarrow> int \<Rightarrow> int \<Rightarrow> (string \<times> attr_value) list \<Rightarrow> span" where
  "mk_span n k t0 t1 kvs =
     \<lparr>name = n, kind = k, start_time = t0, end_time = t1, attributes = map_of kvs\<rparr>"

definition demo_criteria :: criteria where
  "demo_criteria =
     \<lparr>include_names = Some [''chat'', ''execute_tool''],
      operation_names = Some [''chat'', ''execute_tool''],
      min_duration_ms = Some 100,
      exclude_operations = Some [''debug_ping''],
      exclude_span_kinds = Some [CLIENT]\<rparr>"

section \<open>Auxiliary facts\<close>

subsection \<open>Rounding to a double\<close>

lemma round_half_even_error: "\<bar>of_int (round_half_even x) - x\<bar> \<le> 1 / 2"
proof -
  have a: "of_int \<lfloor>x\<rfloor> \<le> x" and b: "x < of_int \<lfloor>x\<rfloor> + 1"
    by linarith+
  show ?thesis
    unfolding round_half_even_def Let_def using a b by (simp split: if_splits)
qed

lemma binade_lower:
  assumes "0 < x"
  shows "2 powi (binade x) \<le> x"
proof -
  obtain a b where q: "quotient_of x = (a, b)"
    by (cases "quotient_of x")
  then have b: "0 < b" and x: "x = of_int a / of_int b"
    by (simp_all add: quotient_of_denom_pos quotient_of_div)
  with assms have a: "0 < a"
    by (simp add: zero_less_divide_iff)
  define e where "e = bitlen a - bitlen b"
  show ?thesis
  proof (cases "2 powi e \<le> x")
    case True
    then show ?thesis
      by (simp add: binade_def q e_def Let_def)
  next
    case False
    have la: "(2::int) ^ nat (bitlen a - 1) \<le> a" and lb: "b < 2 ^ nat (bitlen b)"
      using bitlen_bounds [OF a] bitlen_bounds [OF b] by simp_all
    have pa: "1 \<le> bitlen a" and pb: "1 \<le> bitlen b"
      using a b bitlen_eq_zero_iff [of a] bitlen_eq_zero_iff [of b] bitlen_nonneg [of a]
        bitlen_nonneg [of b] by linarith+
    have ra: "(2::rat) powi (bitlen a - 1) \<le> of_int a"
    proof -
      have "(of_int ((2::int) ^ nat (bitlen a - 1)) :: rat) \<le> of_int a"
        using la by (simp only: of_int_le_iff)
      then show ?thesis
        using pa by (simp add: power_int_def)
    qed
    have rb: "(of_int b :: rat) \<le> 2 powi bitlen b"
    proof -
      have "(of_int b :: rat) \<le> of_int ((2::int) ^ nat (bitlen b))"
        using lb by (simp only: of_int_le_iff)
      then show ?thesis
        using pb by (simp add: power_int_def)
    qed
    have eq: "e - 1 = (bitlen a - 1) - bitlen b"
      by (simp add: e_def)
    have "(2::rat) powi (e - 1) = 2 powi (bitlen a - 1) / 2 powi bitlen b"
      unfolding eq by (rule power_int_diff) simp
    also have "\<dots> \<le> of_int a / 2 powi bitlen b"
      using ra by (simp add: divide_right_mono)
    also have "\<dots> \<le> of_int a / of_int b"
      using rb a b by (simp add: divide_left_mono)
    finally have "(2::rat) powi (e - 1) \<le> x"
      by (simp add: x)
    with False show ?thesis
      by (simp add: binade_def q e_def Let_def)
  qed
qed

text \<open>Rounding moves a number by at most the fraction \<open>2^-53\<close> of its size.\<close>

lemma to_double_error: "\<bar>to_double x - x\<bar> \<le> \<bar>x\<bar> / 2 ^ 53"
proof (cases "x = 0")
  case True
  then show ?thesis by (simp add: to_double_def)
next
  case False
  then have pos: "0 < \<bar>x\<bar>" by simp
  define u :: rat where "u = 2 powi (binade \<bar>x\<bar> - 52)"
  define r where "r = round_half_even (\<bar>x\<bar> / u)"
  have u: "0 < u" by (simp add: u_def)
  have td: "to_double x = sgn x * (of_int r * u)"
    using False by (simp add: to_double_def u_def r_def Let_def)
  have "to_double x - x = sgn x * (of_int r * u - \<bar>x\<bar>)"
    by (simp only: td right_diff_distrib mult_sgn_abs)
  then have "\<bar>to_double x - x\<bar> = \<bar>sgn x\<bar> * \<bar>of_int r * u - \<bar>x\<bar>\<bar>"
    by (simp only: abs_mult)
  also have "\<dots> = \<bar>of_int r * u - \<bar>x\<bar>\<bar>"
    using False by (simp add: abs_sgn_eq)
  also have "\<dots> = \<bar>of_int r - \<bar>x\<bar> / u\<bar> * u"
  proof -
    have "of_int r * u - \<bar>x\<bar> = (of_int r - \<bar>x\<bar> / u) * u"
      using u by (simp add: left_diff_distrib)
    then show ?thesis
      using u by (simp only: abs_mult)
  qed
  also have "\<dots> \<le> 1 / 2 * u"
    using round_half_even_error [of "\<bar>x\<bar> / u"] u
    by (intro mult_right_mono) (simp_all add: r_def)
  also have "\<dots> = 2 powi (binade \<bar>x\<bar>) / 2 ^ 53"
    by (simp add: u_def power_int_diff)
  also have "\<dots> \<le> \<bar>x\<bar> / 2 ^ 53"
    using binade_lower [OF pos] by (simp add: divide_right_mono)
  finally show ?thesis .
qed

lemma to_double_100: "to_double 100 = 100"
  by code_simp

lemma to_double_250: "to_double 250 = 250"
  by code_simp

lemma to_double_below_20000000000:
  "to_double (19999999999999999 / 1000000) = 20000000000"
  by code_simp

text \<open>
  Against the floor 100 the rounding is harmless: a whole number of nanoseconds gives a
  quotient that is 100, or at least one millionth away from it.
\<close>

lemma to_double_less_100_iff:
  "to_double (of_int n / 1000000) < 100 \<longleftrightarrow> (of_int n / 1000000 :: rat) < 100"
proof -
  define q :: rat where "q = of_int n / 1000000"
  have err: "\<bar>to_double q - q\<bar> \<le> \<bar>q\<bar> / 9007199254740992"
    using to_double_error [of q] by simp
  show ?thesis
  proof (cases "n < 100000000")
    case True
    then have "n \<le> 99999999" by simp
    then have "(of_int n :: rat) \<le> 99999999"
      by (metis of_int_le_iff of_int_numeral)
    then have q: "q \<le> 99999999 / 1000000"
      by (simp add: q_def)
    then have "q < 100" by simp
    moreover have "to_double q < 100"
      using err q by linarith
    ultimately show ?thesis
      by (simp add: q_def)
  next
    case False
    then have ge: "100000000 \<le> n" by simp
    show ?thesis
    proof (cases "n = 100000000")
      case True
      then show ?thesis
        by (simp add: to_double_100)
    next
      case False
      with ge have "100000001 \<le> n" by simp
      then have "(100000001 :: rat) \<le> of_int n"
        by (metis of_int_le_iff of_int_numeral)
      then have q: "100000001 / 1000000 \<le> q"
        by (simp add: q_def)
      then have "\<not> q < 100" by simp
      moreover have "\<not> to_double q < 100"
        using err q by linarith
      ultimately show ?thesis
        by (simp add: q_def)
    qed
  qed
qed

subsection \<open>The processor\<close>

lemma init_Some: "init ex (Some fc) = \<lparr>exporter = ex, filter_criteria = fc\<rparr>"
  by (simp add: init_def)

lemma calls_export_span:
  "calls (exporter (fst (export_span ops p s))) = calls (exporter p) @ [Export [s]]"
  by (simp add: export_span_def exporter_export_def split: prod.splits)

lemma exporter_export_span:
  "exporter (fst (export_span ops p s)) = fst (exporter_export ops [s] (exporter p))"
  "snd (export_span ops p s) =
     (case snd (exporter_export ops [s] (exporter p)) of Inl x \<Rightarrow> Inl x | Inr _ \<Rightarrow> Inr ())"
  by (simp_all add: export_span_def split: prod.splits)

lemma export_span_not_noop: "export_span ops p s \<noteq> (p, r)"
proof
  assume "export_span ops p s = (p, r)"
  then have "calls (exporter (fst (export_span ops p s))) = calls (exporter p)"
    by simp
  then show False
    by (simp add: calls_export_span)
qed

lemma on_end_outcome_eq:
  "on_end_outcome ops ex fc s =
     (exporter (fst (on_end ops \<lparr>exporter = ex, filter_criteria = fc\<rparr> s)),
      snd (on_end ops \<lparr>exporter = ex, filter_criteria = fc\<rparr> s))"
  by (simp add: on_end_outcome_def init_Some split: prod.splits)

lemma operation_in_iff:
  "operation_in opn ns \<longleftrightarrow> (case opn of None \<Rightarrow> False | Some v \<Rightarrow> v \<in> set (map AStr ns))"
  by (auto simp: operation_in_def split: option.splits attr_value.splits)

lemma include_names_check:
  "(case include_names fc of None \<Rightarrow> False
    | Some ns \<Rightarrow> ns \<noteq> [] \<and> \<not> list_ex (\<lambda>n. sublist n (name s)) ns) \<longleftrightarrow>
   \<not> passes_include_names fc s"
  by (simp add: passes_include_names_def split: option.splits)

lemma operation_names_check:
  "(case operation_names fc of None \<Rightarrow> False
    | Some ns \<Rightarrow> ns \<noteq> [] \<and> \<not> operation_in (attributes s ''gen_ai.operation.name'') ns) \<longleftrightarrow>
   \<not> passes_operation_names fc s"
  by (simp add: passes_operation_names_def operation_in_iff split: option.splits)

lemma min_duration_ms_check:
  "(case min_duration_ms fc of None \<Rightarrow> False
    | Some m \<Rightarrow> m \<noteq> 0 \<and> duration_ms s < m) \<longleftrightarrow>
   \<not> passes_min_duration_ms fc s"
  by (simp add: passes_min_duration_ms_def not_le split: option.splits)

lemma exclude_operations_check:
  "(case exclude_operations fc of None \<Rightarrow> False
    | Some ns \<Rightarrow> ns \<noteq> [] \<and> operation_in (attributes s ''gen_ai.operation.name'') ns) \<longleftrightarrow>
   \<not> passes_exclude_operations fc s"
  by (auto simp: passes_exclude_operations_def operation_in_iff split: option.splits)

lemma exclude_span_kinds_check:
  "(case exclude_span_kinds fc of None \<Rightarrow> False
    | Some ks \<Rightarrow> ks \<noteq> [] \<and> kind s \<in> set ks) \<longleftrightarrow>
   \<not> passes_exclude_span_kinds fc s"
  by (auto simp: passes_exclude_span_kinds_def split: option.splits)

lemma on_end_checks:
  "on_end ops p s =
     (if \<not> passes_include_names (filter_criteria p) s then (p, Inr ())
      else if \<not> passes_operation_names (filter_criteria p) s then (p, Inr ())
      else if \<not> passes_min_duration_ms (filter_criteria p) s then (p, Inr ())
      else if \<not> passes_exclude_operations (filter_criteria p) s then (p, Inr ())
      else if \<not> passes_exclude_span_kinds (filter_criteria p) s then (p, Inr ())
      else export_span ops p s)"
  unfolding on_end_def Let_def include_names_check operation_names_check
    min_duration_ms_check exclude_operations_check exclude_span_kinds_check
  by (rule refl)

lemma on_end_raises_only_from_export:
  "snd (on_end ops p s) = Inl x \<Longrightarrow> snd (export_impl ops [s] (est (exporter p))) = Inl x"
  by (simp add: on_end_checks export_span_def exporter_export_def
      split: if_splits prod.splits sum.splits)

lemma passes_attributes_cong:
  assumes "m ''gen_ai.operation.name'' = attributes s ''gen_ai.operation.name''"
  shows "passes_include_names fc (s\<lparr>attributes := m\<rparr>) = passes_include_names fc s"
    and "passes_operation_names fc (s\<lparr>attributes := m\<rparr>) = passes_operation_names fc s"
    and "passes_min_duration_ms fc (s\<lparr>attributes := m\<rparr>) = passes_min_duration_ms fc s"
    and "passes_exclude_operations fc (s\<lparr>attributes := m\<rparr>) = passes_exclude_operations fc s"
    and "passes_exclude_span_kinds fc (s\<lparr>attributes := m\<rparr>) = passes_exclude_span_kinds fc s"
  using assms
  by (simp_all add: passes_include_names_def passes_operation_names_def
      passes_min_duration_ms_def passes_exclude_operations_def passes_exclude_span_kinds_def
      duration_ms_def cong: option.case_cong)

section \<open>Forwarding and dropping\<close>



text \<open>
  With the predicates read as the specification words them the statement fails, in two
  ways.  An \<open>operation_names\<close> set to the empty list is a configured allow-list that no
  span passes, yet the guard \<^verbatim>\<open>if self.filter_criteria.get("operation_names")\<close> is false
  and the span is exported.  And a span of 19999999999999999 ns is shorter than a floor
  of 20000000000 ms, yet its float duration is 20000000000.0, not less than the floor,
  and the span is exported.
\<close>

theorem on_end_exports_though_spec_predicate_fails:
  "\<not> spec_all_predicates_pass (empty_criteria\<lparr>operation_names := Some []\<rparr>)
       (mk_span ''chat'' INTERNAL 0 1 [(''gen_ai.operation.name'', AStr ''chat'')]) \<and>
   calls (exporter (fst (on_end counting_exporter
       (init fresh (Some (empty_criteria\<lparr>operation_names := Some []\<rparr>)))
       (mk_span ''chat'' INTERNAL 0 1 [(''gen_ai.operation.name'', AStr ''chat'')])))) =
     [Export [mk_span ''chat'' INTERNAL 0 1 [(''gen_ai.operation.name'', AStr ''chat'')]]] \<and>
   \<not> spec_all_predicates_pass (empty_criteria\<lparr>min_duration_ms := Some 20000000000\<rparr>)
       (mk_span ''chat'' INTERNAL 0 19999999999999999 []) \<and>
   calls (exporter (fst (on_end counting_exporter
       (init fresh (Some (empty_criteria\<lparr>min_duration_ms := Some 20000000000\<rparr>)))
       (mk_span ''chat'' INTERNAL 0 19999999999999999 [])))) =
     [Export [mk_span ''chat'' INTERNAL 0 19999999999999999 []]]"
  by (simp add: spec_all_predicates_pass_def passes_include_names_def
      spec_passes_operation_names_def spec_passes_min_duration_ms_def
      passes_exclude_operations_def passes_exclude_span_kinds_def
      on_end_def export_span_def exporter_export_def counting_exporter_def
      init_def fresh_def empty_criteria_def mk_span_def duration_ms_def
      to_double_below_20000000000)

text \<open>
  Claim C2.  With no predicate set, whether the processor holds the empty configuration
  or was built from \<^verbatim>\<open>filter_criteria=None\<close> or from an empty dict, \<^verbatim>\<open>on_end\<close> forwards
  every span: it is the single \<^verbatim>\<open>export\<close> call on the batch that holds the span as it
  came in, and the exporter moves to the state that this call gives.
\<close>

theorem on_end_no_predicates_forwards:
  assumes "filter_criteria p = empty_criteria \<or> p = init ex None \<or>
           p = init ex (Some empty_criteria)"
  shows "on_end ops p s = export_span ops p s \<and>
         calls (exporter (fst (on_end ops p s))) = calls (exporter p) @ [Export [s]] \<and>
         est (exporter (fst (on_end ops p s))) = fst (export_impl ops [s] (est (exporter p)))"
proof -
  from assms have "filter_criteria p = empty_criteria"
    by (auto simp: init_def)
  then have "on_end ops p s = export_span ops p s"
    by (simp add: on_end_def empty_criteria_def)
  then show ?thesis
    by (simp add: calls_export_span)
      (simp add: export_span_def exporter_export_def split: prod.splits)
qed

theorem on_end_no_predicates_forwards_witness:
  "filter_criteria (init fresh None) = empty_criteria \<and>
   calls (exporter (fst (on_end counting_exporter (init fresh None)
      (mk_span ''anything'' CLIENT 5 3 [(''gen_ai.operation.name'', AStr ''debug_ping'')])))) =
     [Export [mk_span ''anything'' CLIENT 5 3 [(''gen_ai.operation.name'', AStr ''debug_ping'')]]] \<and>
   est (exporter (fst (on_end counting_exporter (init fresh None)
      (mk_span ''anything'' CLIENT 5 3 [(''gen_ai.operation.name'', AStr ''debug_ping'')])))) =
     (1, False)"
  using on_end_no_predicates_forwards [where p = "init fresh None" and ex = fresh
      and ops = counting_exporter
      and s = "mk_span ''anything'' CLIENT 5 3 [(''gen_ai.operation.name'', AStr ''debug_ping'')]"]
  by (simp add: init_def fresh_def counting_exporter_def export_span_def exporter_export_def)

section \<open>A span without the operation attribute\<close>

text \<open>
  Claim C3, as the code has it.  Take a span whose attribute mapping has no operation
  attribute.  If \<open>operation_names\<close> is set to a non-empty collection, the span is dropped:
  the processor returns normally and nothing is called.  If \<open>exclude_operations\<close> is the
  only criterion set, the span is forwarded; and whatever the other criteria are, setting
  \<open>exclude_operations\<close> changes nothing for such a span.  In no case does \<^verbatim>\<open>on_end\<close>
  raise by itself: an exception that leaves it is one that the exporter's \<^verbatim>\<open>export\<close>
  raised.
\<close>

theorem absent_operation_attribute:
  assumes "attributes s ''gen_ai.operation.name'' = None"
  shows "(operation_names (filter_criteria p) = Some ns \<and> ns \<noteq> [] \<longrightarrow>
            on_end ops p s = (p, Inr ())) \<and>
         (filter_criteria p = empty_criteria\<lparr>exclude_operations := Some ds\<rparr> \<longrightarrow>
            on_end ops p s = export_span ops p s \<and>
            calls (exporter (fst (on_end ops p s))) = calls (exporter p) @ [Export [s]]) \<and>
         on_end_outcome ops ex (fc\<lparr>exclude_operations := Some ds\<rparr>) s =
           on_end_outcome ops ex (fc\<lparr>exclude_operations := None\<rparr>) s \<and>
         (\<forall>x. snd (on_end ops p s) = Inl x \<longrightarrow>
            snd (export_impl ops [s] (est (exporter p))) = Inl x)"
proof (intro conjI allI impI)
  assume "operation_names (filter_criteria p) = Some ns \<and> ns \<noteq> []"
  with assms show "on_end ops p s = (p, Inr ())"
    by (simp add: on_end_def Let_def operation_in_def)
next
  assume "filter_criteria p = empty_criteria\<lparr>exclude_operations := Some ds\<rparr>"
  with assms show "on_end ops p s = export_span ops p s"
    by (simp add: on_end_def Let_def operation_in_def empty_criteria_def)
  then show "calls (exporter (fst (on_end ops p s))) = calls (exporter p) @ [Export [s]]"
    by (simp add: calls_export_span)
next
  from assms show "on_end_outcome ops ex (fc\<lparr>exclude_operations := Some ds\<rparr>) s =
      on_end_outcome ops ex (fc\<lparr>exclude_operations := None\<rparr>) s"
    by (simp add: on_end_outcome_eq on_end_def Let_def operation_in_def exporter_export_span)
next
  fix x assume "snd (on_end ops p s) = Inl x"
  then show "snd (export_impl ops [s] (est (exporter p))) = Inl x"
    by (rule on_end_raises_only_from_export)
qed

theorem absent_operation_attribute_witness:
  "attributes (mk_span ''chat'' INTERNAL 0 1 [(''other.key'', AStr ''chat'')])
       ''gen_ai.operation.name'' = None \<and>
   on_end counting_exporter (init fresh (Some (empty_criteria\<lparr>operation_names := Some [''chat'']\<rparr>)))
       (mk_span ''chat'' INTERNAL 0 1 [(''other.key'', AStr ''chat'')]) =
     (init fresh (Some (empty_criteria\<lparr>operation_names := Some [''chat'']\<rparr>)), Inr ()) \<and>
   calls (exporter (fst (on_end counting_exporter
       (init fresh (Some (empty_criteria\<lparr>exclude_operations := Some [''chat'']\<rparr>)))
       (mk_span ''chat'' INTERNAL 0 1 [(''other.key'', AStr ''chat'')])))) =
     [Export [mk_span ''chat'' INTERNAL 0 1 [(''other.key'', AStr ''chat'')]]]"
  using
    absent_operation_attribute [where s = "mk_span ''chat'' INTERNAL 0 1 [(''other.key'', AStr ''chat'')]"
      and p = "init fresh (Some (empty_criteria\<lparr>operation_names := Some [''chat'']\<rparr>))"
      and ns = "[''chat'']" and ops = counting_exporter, THEN conjunct1]
    absent_operation_attribute [where s = "mk_span ''chat'' INTERNAL 0 1 [(''other.key'', AStr ''chat'')]"
      and p = "init fresh (Some (empty_criteria\<lparr>exclude_operations := Some [''chat'']\<rparr>))"
      and ds = "[''chat'']" and ops = counting_exporter, THEN conjunct2, THEN conjunct1]
  by (simp add: init_def fresh_def empty_criteria_def mk_span_def export_span_def
      exporter_export_def counting_exporter_def)

text \<open>
  Without the word non-empty the first part fails.  With \<open>operation_names\<close> set to the
  empty list the guard \<^verbatim>\<open>if self.filter_criteria.get("operation_names")\<close> is false, the
  check is skipped, and a span without the operation attribute reaches the exporter.
\<close>

theorem absent_operation_empty_allow_list_forwarded:
  "attributes (mk_span ''chat'' INTERNAL 0 1 []) ''gen_ai.operation.name'' = None \<and>
   operation_names (empty_criteria\<lparr>operation_names := Some []\<rparr>) = Some [] \<and>
   on_end counting_exporter (init fresh (Some (empty_criteria\<lparr>operation_names := Some []\<rparr>)))
       (mk_span ''chat'' INTERNAL 0 1 []) \<noteq>
     (init fresh (Some (empty_criteria\<lparr>operation_names := Some []\<rparr>)), Inr ()) \<and>
   calls (exporter (fst (on_end counting_exporter
       (init fresh (Some (empty_criteria\<lparr>operation_names := Some []\<rparr>)))
       (mk_span ''chat'' INTERNAL 0 1 [])))) = [Export [mk_span ''chat'' INTERNAL 0 1 []]]"
  by (simp add: on_end_def export_span_def exporter_export_def counting_exporter_def
      init_def fresh_def empty_criteria_def mk_span_def)

section \<open>The single predicates\<close>

text \<open>
  Claim C4.  With \<open>include_names\<close> set to the one substring \<^verbatim>\<open>chat\<close> and nothing else
  set, a span is forwarded exactly when its name contains \<^verbatim>\<open>chat\<close> as a contiguous
  piece, letter case included.  So a span named \<^verbatim>\<open>execute_tool\<close> is dropped (no call), a
  span named \<^verbatim>\<open>chat-completion\<close> is forwarded (one \<^verbatim>\<open>export\<close> of the batch holding it),
  and a span named \<^verbatim>\<open>Chat-Completion\<close> is dropped.
\<close>

theorem include_names_chat:
  assumes "filter_criteria p = empty_criteria\<lparr>include_names := Some [''chat'']\<rparr>"
  shows "on_end ops p s =
           (if sublist ''chat'' (name s) then export_span ops p s else (p, Inr ())) \<and>
         (name s = ''execute_tool'' \<longrightarrow> on_end ops p s = (p, Inr ())) \<and>
         (name s = ''chat-completion'' \<longrightarrow>
            on_end ops p s = export_span ops p s \<and>
            calls (exporter (fst (on_end ops p s))) = calls (exporter p) @ [Export [s]]) \<and>
         (name s = ''Chat-Completion'' \<longrightarrow> on_end ops p s = (p, Inr ()))"
proof -
  from assms have *: "on_end ops p s =
      (if sublist ''chat'' (name s) then export_span ops p s else (p, Inr ()))"
    by (simp add: on_end_def Let_def empty_criteria_def)
  have a: "\<not> sublist ''chat'' ''execute_tool''"
    by (simp add: sublist_code(3))
  have b: "sublist ''chat'' ''chat-completion''"
    by (simp add: sublist_code(3))
  have c: "\<not> sublist ''chat'' ''Chat-Completion''"
    by (simp add: sublist_code(3))
  from a b c show ?thesis
    unfolding * by (simp add: calls_export_span)
qed

theorem include_names_chat_witness:
  "filter_criteria (init fresh (Some (empty_criteria\<lparr>include_names := Some [''chat'']\<rparr>))) =
     empty_criteria\<lparr>include_names := Some [''chat'']\<rparr> \<and>
   on_end counting_exporter (init fresh (Some (empty_criteria\<lparr>include_names := Some [''chat'']\<rparr>)))
       (mk_span ''execute_tool'' INTERNAL 0 1 []) =
     (init fresh (Some (empty_criteria\<lparr>include_names := Some [''chat'']\<rparr>)), Inr ()) \<and>
   calls (exporter (fst (on_end counting_exporter
       (init fresh (Some (empty_criteria\<lparr>include_names := Some [''chat'']\<rparr>)))
       (mk_span ''chat-completion'' INTERNAL 0 1 [])))) =
     [Export [mk_span ''chat-completion'' INTERNAL 0 1 []]] \<and>
   on_end counting_exporter (init fresh (Some (empty_criteria\<lparr>include_names := Some [''chat'']\<rparr>)))
       (mk_span ''Chat-Completion'' INTERNAL 0 1 []) =
     (init fresh (Some (empty_criteria\<lparr>include_names := Some [''chat'']\<rparr>)), Inr ())"
  using
    include_names_chat [where p = "init fresh (Some (empty_criteria\<lparr>include_names := Some [''chat'']\<rparr>))"
      and ops = counting_exporter and s = "mk_span ''Chat-Completion'' INTERNAL 0 1 []",
      THEN conjunct2, THEN conjunct2, THEN conjunct2]
    include_names_chat [where p = "init fresh (Some (empty_criteria\<lparr>include_names := Some [''chat'']\<rparr>))"
      and ops = counting_exporter and s = "mk_span ''execute_tool'' INTERNAL 0 1 []",
      THEN conjunct2, THEN conjunct1]
    include_names_chat [where p = "init fresh (Some (empty_criteria\<lparr>include_names := Some [''chat'']\<rparr>))"
      and ops = counting_exporter and s = "mk_span ''chat-completion'' INTERNAL 0 1 []",
      THEN conjunct2, THEN conjunct2, THEN conjunct1]
  by (simp add: init_def fresh_def empty_criteria_def mk_span_def export_span_def
      exporter_export_def counting_exporter_def)

text \<open>
  Claim C5.  With \<open>min_duration_ms\<close> set to 100 and nothing else set, the duration is the
  difference of the two timestamps divided by 1000000, and a span is dropped exactly
  when that duration is below 100, strictly; it makes no difference here whether the
  exact quotient or the float that Python computes from it is compared.  A span of
  99000000 ns is dropped; a span of exactly 100000000 ns is forwarded.
\<close>

theorem min_duration_ms_100:
  assumes "filter_criteria p = empty_criteria\<lparr>min_duration_ms := Some 100\<rparr>"
  shows "duration_ms s = to_double (of_int (end_time s - start_time s) / 1000000) \<and>
         on_end ops p s =
           (if of_int (end_time s - start_time s) / (1000000 :: rat) < 100
            then (p, Inr ()) else export_span ops p s) \<and>
         on_end ops p s =
           (if duration_ms s < 100 then (p, Inr ()) else export_span ops p s) \<and>
         (end_time s - start_time s = 99000000 \<longrightarrow> on_end ops p s = (p, Inr ())) \<and>
         (end_time s - start_time s = 100000000 \<longrightarrow>
            on_end ops p s = export_span ops p s \<and>
            calls (exporter (fst (on_end ops p s))) = calls (exporter p) @ [Export [s]])"
proof -
  from assms have *: "on_end ops p s =
      (if duration_ms s < 100 then (p, Inr ()) else export_span ops p s)"
    by (simp add: on_end_def Let_def empty_criteria_def)
  have **: "duration_ms s < 100 \<longleftrightarrow>
      of_int (end_time s - start_time s) / (1000000 :: rat) < 100"
    unfolding duration_ms_def by (rule to_double_less_100_iff)
  have ***: "on_end ops p s =
      (if of_int (end_time s - start_time s) / (1000000 :: rat) < 100
       then (p, Inr ()) else export_span ops p s)"
    unfolding * ** by (rule refl)
  have a: "end_time s - start_time s = 99000000 \<longrightarrow> on_end ops p s = (p, Inr ())"
    unfolding *** by simp
  have b: "end_time s - start_time s = 100000000 \<longrightarrow>
      on_end ops p s = export_span ops p s \<and>
      calls (exporter (fst (on_end ops p s))) = calls (exporter p) @ [Export [s]]"
    unfolding *** by (simp add: calls_export_span)
  from * *** a b show ?thesis
    by (simp only: duration_ms_def simp_thms)
qed

theorem min_duration_ms_100_witness:
  "filter_criteria (init fresh (Some (empty_criteria\<lparr>min_duration_ms := Some 100\<rparr>))) =
     empty_criteria\<lparr>min_duration_ms := Some 100\<rparr> \<and>
   end_time (mk_span ''chat'' INTERNAL 1000 99001000 []) -
     start_time (mk_span ''chat'' INTERNAL 1000 99001000 []) = 99000000 \<and>
   on_end counting_exporter (init fresh (Some (empty_criteria\<lparr>min_duration_ms := Some 100\<rparr>)))
       (mk_span ''chat'' INTERNAL 1000 99001000 []) =
     (init fresh (Some (empty_criteria\<lparr>min_duration_ms := Some 100\<rparr>)), Inr ()) \<and>
   end_time (mk_span ''chat'' INTERNAL 1000 100001000 []) -
     start_time (mk_span ''chat'' INTERNAL 1000 100001000 []) = 100000000 \<and>
   calls (exporter (fst (on_end counting_exporter
       (init fresh (Some (empty_criteria\<lparr>min_duration_ms := Some 100\<rparr>)))
       (mk_span ''chat'' INTERNAL 1000 100001000 [])))) =
     [Export [mk_span ''chat'' INTERNAL 1000 100001000 []]]"
  using
    min_duration_ms_100 [where p = "init fresh (Some (empty_criteria\<lparr>min_duration_ms := Some 100\<rparr>))"
      and s = "mk_span ''chat'' INTERNAL 1000 99001000 []" and ops = counting_exporter,
      THEN conjunct2, THEN conjunct2, THEN conjunct2, THEN conjunct1]
    min_duration_ms_100 [where p = "init fresh (Some (empty_criteria\<lparr>min_duration_ms := Some 100\<rparr>))"
      and s = "mk_span ''chat'' INTERNAL 1000 100001000 []" and ops = counting_exporter,
      THEN conjunct2, THEN conjunct2, THEN conjunct2, THEN conjunct2]
  by (simp add: init_def fresh_def empty_criteria_def mk_span_def export_span_def
      exporter_export_def counting_exporter_def)

text \<open>
  Claim C6.  With \<open>exclude_span_kinds\<close> set to the one kind \<open>CLIENT\<close>, every span of kind
  \<open>CLIENT\<close> is dropped, whatever the other criteria are and whether or not they pass.
  For a span of any other kind this criterion makes no difference: what the exporter
  receives and what \<^verbatim>\<open>on_end\<close> returns are the same as with the criterion unset.
\<close>

theorem exclude_client_kind:
  "(exclude_span_kinds (filter_criteria p) = Some [CLIENT] \<and> kind s = CLIENT \<longrightarrow>
      on_end ops p s = (p, Inr ())) \<and>
   (kind s \<noteq> CLIENT \<longrightarrow>
      on_end_outcome ops ex (fc\<lparr>exclude_span_kinds := Some [CLIENT]\<rparr>) s =
      on_end_outcome ops ex (fc\<lparr>exclude_span_kinds := None\<rparr>) s)"
  by (simp add: on_end_outcome_eq on_end_def Let_def exporter_export_span)

theorem exclude_client_kind_witness:
  "exclude_span_kinds (filter_criteria (init fresh (Some demo_criteria))) = Some [CLIENT] \<and>
   kind (mk_span ''chat-completion'' CLIENT 0 250000000
       [(''gen_ai.operation.name'', AStr ''chat'')]) = CLIENT \<and>
   on_end counting_exporter (init fresh (Some demo_criteria))
       (mk_span ''chat-completion'' CLIENT 0 250000000
          [(''gen_ai.operation.name'', AStr ''chat'')]) =
     (init fresh (Some demo_criteria), Inr ()) \<and>
   kind (mk_span ''chat-completion'' SERVER 0 250000000
       [(''gen_ai.operation.name'', AStr ''chat'')]) \<noteq> CLIENT \<and>
   on_end_outcome counting_exporter fresh (demo_criteria\<lparr>exclude_span_kinds := Some [CLIENT]\<rparr>)
       (mk_span ''chat-completion'' SERVER 0 250000000
          [(''gen_ai.operation.name'', AStr ''chat'')]) =
     on_end_outcome counting_exporter fresh (demo_criteria\<lparr>exclude_span_kinds := None\<rparr>)
       (mk_span ''chat-completion'' SERVER 0 250000000
          [(''gen_ai.operation.name'', AStr ''chat'')]) \<and>
   calls (fst (on_end_outcome counting_exporter fresh
       (demo_criteria\<lparr>exclude_span_kinds := Some [CLIENT]\<rparr>)
       (mk_span ''chat-completion'' SERVER 0 250000000
          [(''gen_ai.operation.name'', AStr ''chat'')]))) =
     [Export [mk_span ''chat-completion'' SERVER 0 250000000
          [(''gen_ai.operation.name'', AStr ''chat'')]]]"
  using
    exclude_client_kind [where p = "init fresh (Some demo_criteria)"
      and s = "mk_span ''chat-completion'' CLIENT 0 250000000
          [(''gen_ai.operation.name'', AStr ''chat'')]"
      and ops = counting_exporter, THEN conjunct1]
    exclude_client_kind [where s = "mk_span ''chat-completion'' SERVER 0 250000000
          [(''gen_ai.operation.name'', AStr ''chat'')]" and ops = counting_exporter
      and ex = fresh and fc = demo_criteria, THEN conjunct2]
  by (simp add: init_def fresh_def demo_criteria_def empty_criteria_def mk_span_def
      on_end_outcome_def on_end_def Let_def operation_in_def sublist_code(3)
      duration_ms_def to_double_250 export_span_def exporter_export_def
      counting_exporter_def)

section \<open>Shutdown and flush\<close>

text \<open>
  Claim C7.  \<^verbatim>\<open>shutdown\<close> is one call of the exporter's \<^verbatim>\<open>shutdown\<close> and nothing more: the
  configuration stays, the exporter takes the state that its own \<^verbatim>\<open>shutdown\<close> gives, and an
  exception of that call goes on to the caller.  If the exporter's \<^verbatim>\<open>shutdown\<close> is
  idempotent where the processor stands, that is, it succeeds and, repeated on the state
  it leaves, succeeds again and leaves that state as it is, then two \<^verbatim>\<open>shutdown\<close> calls of
  the processor both return normally and the second changes neither the exporter's state
  nor the configuration; all that happened is two delegated calls.
\<close>

theorem shutdown_delegates_idempotent:
  "shutdown ops p =
     (p\<lparr>exporter := \<lparr>calls = calls (exporter p) @ [Shutdown],
                      est = fst (shutdown_impl ops (est (exporter p)))\<rparr>\<rparr>,
      snd (shutdown_impl ops (est (exporter p)))) \<and>
   (shutdown_impl ops (est (exporter p)) = (e1, Inr ()) \<and> shutdown_impl ops e1 = (e1, Inr ()) \<longrightarrow>
      snd (shutdown ops p) = Inr () \<and>
      snd (shutdown ops (fst (shutdown ops p))) = Inr () \<and>
      est (exporter (fst (shutdown ops (fst (shutdown ops p))))) =
        est (exporter (fst (shutdown ops p))) \<and>
      filter_criteria (fst (shutdown ops (fst (shutdown ops p)))) = filter_criteria p \<and>
      calls (exporter (fst (shutdown ops (fst (shutdown ops p))))) =
        calls (exporter p) @ [Shutdown, Shutdown])"
proof -
  have *: "shutdown ops q =
     (q\<lparr>exporter := \<lparr>calls = calls (exporter q) @ [Shutdown],
                      est = fst (shutdown_impl ops (est (exporter q)))\<rparr>\<rparr>,
      snd (shutdown_impl ops (est (exporter q))))" for q
    by (simp add: shutdown_def exporter_shutdown_def split: prod.splits sum.splits)
  show ?thesis
    by (simp add: *)
qed

theorem shutdown_delegates_idempotent_witness:
  "shutdown_impl counting_exporter (est (exporter (init fresh (Some demo_criteria)))) =
     ((0, True), Inr ()) \<and>
   shutdown_impl counting_exporter (0, True) = ((0, True), Inr ()) \<and>
   shutdown counting_exporter (init fresh (Some demo_criteria)) =
     (\<lparr>exporter = \<lparr>calls = [Shutdown], est = (0, True)\<rparr>, filter_criteria = demo_criteria\<rparr>,
      Inr ()) \<and>
   shutdown counting_exporter (fst (shutdown counting_exporter (init fresh (Some demo_criteria)))) =
     (\<lparr>exporter = \<lparr>calls = [Shutdown, Shutdown], est = (0, True)\<rparr>,
       filter_criteria = demo_criteria\<rparr>, Inr ())"
  using
    shutdown_delegates_idempotent [where ops = counting_exporter
      and p = "init fresh (Some demo_criteria)" and ?e1.0 = "(0, True)"]
    shutdown_delegates_idempotent [where ops = counting_exporter
      and p = "fst (shutdown counting_exporter (init fresh (Some demo_criteria)))"
      and ?e1.0 = "(0, True)", THEN conjunct1]
  by (simp add: init_def fresh_def counting_exporter_def demo_criteria_def empty_criteria_def)

text \<open>
  Claim C8.  For every timeout \<open>t\<close>, \<^verbatim>\<open>force_flush(t)\<close> is one call of the exporter's
  \<^verbatim>\<open>force_flush\<close> with that same \<open>t\<close>; what the call returns (or raises) is what
  \<^verbatim>\<open>force_flush\<close> returns (or raises), unchanged; the configuration stays, and the
  exporter changes only as that call changes it.
\<close>

theorem force_flush_delegates:
  "force_flush ops p t =
     (p\<lparr>exporter := \<lparr>calls = calls (exporter p) @ [ForceFlush t],
                      est = fst (force_flush_impl ops t (est (exporter p)))\<rparr>\<rparr>,
      snd (force_flush_impl ops t (est (exporter p))))"
  by (simp add: force_flush_def exporter_force_flush_def split: prod.splits)

theorem force_flush_delegates_witness:
  "force_flush counting_exporter (init fresh (Some demo_criteria)) 1234 =
     (\<lparr>exporter = \<lparr>calls = [ForceFlush 1234], est = (0, False)\<rparr>,
       filter_criteria = demo_criteria\<rparr>, Inr True)"
  using force_flush_delegates [where ops = counting_exporter
      and p = "init fresh (Some demo_criteria)" and t = 1234]
  by (simp add: init_def fresh_def counting_exporter_def demo_criteria_def empty_criteria_def)

section \<open>The operation key and falsy criteria\<close>

text \<open>
  Claim C9.  Both operation predicates read the one key \<^verbatim>\<open>gen_ai.operation.name\<close>.  A
  span whose value under that key is a text outside a non-empty \<open>operation_names\<close> is
  dropped, and so is a span whose value under that key is a text inside
  \<open>exclude_operations\<close>.  A span whose value under that key is a text inside
  \<open>operation_names\<close> is not dropped by the allow-list, and one whose value is a text
  outside \<open>exclude_operations\<close> is not dropped by the deny-list: each is forwarded when
  that criterion is the only one set, and whatever the other criteria are the outcome is
  that of the same configuration without the criterion.  No other key is looked at:
  replacing the attribute mapping of a span by any mapping with the same entry under
  that key changes neither whether the span is dropped nor whether it is forwarded.
\<close>

theorem operation_key_is_fixed:
  "(operation_names (filter_criteria p) = Some ns \<and> ns \<noteq> [] \<and>
    attributes s ''gen_ai.operation.name'' = Some (AStr v) \<and> v \<notin> set ns \<longrightarrow>
      on_end ops p s = (p, Inr ())) \<and>
   (exclude_operations (filter_criteria p) = Some ds \<and>
    attributes s ''gen_ai.operation.name'' = Some (AStr v) \<and> v \<in> set ds \<longrightarrow>
      on_end ops p s = (p, Inr ())) \<and>
   (filter_criteria p = empty_criteria\<lparr>operation_names := Some ns\<rparr> \<and>
    attributes s ''gen_ai.operation.name'' = Some (AStr v) \<and> v \<in> set ns \<longrightarrow>
      on_end ops p s = export_span ops p s \<and>
      calls (exporter (fst (on_end ops p s))) = calls (exporter p) @ [Export [s]]) \<and>
   (filter_criteria p = empty_criteria\<lparr>exclude_operations := Some ds\<rparr> \<and>
    attributes s ''gen_ai.operation.name'' = Some (AStr v) \<and> v \<notin> set ds \<longrightarrow>
      on_end ops p s = export_span ops p s \<and>
      calls (exporter (fst (on_end ops p s))) = calls (exporter p) @ [Export [s]]) \<and>
   (attributes s ''gen_ai.operation.name'' = Some (AStr v) \<and> v \<in> set ns \<longrightarrow>
      on_end_outcome ops ex (fc\<lparr>operation_names := Some ns\<rparr>) s =
      on_end_outcome ops ex (fc\<lparr>operation_names := None\<rparr>) s) \<and>
   (attributes s ''gen_ai.operation.name'' = Some (AStr v) \<and> v \<notin> set ds \<longrightarrow>
      on_end_outcome ops ex (fc\<lparr>exclude_operations := Some ds\<rparr>) s =
      on_end_outcome ops ex (fc\<lparr>exclude_operations := None\<rparr>) s) \<and>
   (m ''gen_ai.operation.name'' = attributes s ''gen_ai.operation.name'' \<longrightarrow>
      (on_end ops p (s\<lparr>attributes := m\<rparr>) = (p, Inr ())) = (on_end ops p s = (p, Inr ())) \<and>
      (calls (exporter (fst (on_end ops p (s\<lparr>attributes := m\<rparr>)))) =
         calls (exporter p) @ [Export [s\<lparr>attributes := m\<rparr>]]) =
      (calls (exporter (fst (on_end ops p s))) = calls (exporter p) @ [Export [s]]))"
proof (intro conjI impI)
  assume "operation_names (filter_criteria p) = Some ns \<and> ns \<noteq> [] \<and>
    attributes s ''gen_ai.operation.name'' = Some (AStr v) \<and> v \<notin> set ns"
  then show "on_end ops p s = (p, Inr ())"
    by (simp add: on_end_def Let_def operation_in_def)
next
  assume "exclude_operations (filter_criteria p) = Some ds \<and>
    attributes s ''gen_ai.operation.name'' = Some (AStr v) \<and> v \<in> set ds"
  then show "on_end ops p s = (p, Inr ())"
    by (auto simp: on_end_def Let_def operation_in_def)
next
  assume "filter_criteria p = empty_criteria\<lparr>operation_names := Some ns\<rparr> \<and>
    attributes s ''gen_ai.operation.name'' = Some (AStr v) \<and> v \<in> set ns"
  then show fwd: "on_end ops p s = export_span ops p s"
    by (auto simp: on_end_def Let_def operation_in_def empty_criteria_def)
  then show "calls (exporter (fst (on_end ops p s))) = calls (exporter p) @ [Export [s]]"
    by (simp add: calls_export_span)
next
  assume "filter_criteria p = empty_criteria\<lparr>exclude_operations := Some ds\<rparr> \<and>
    attributes s ''gen_ai.operation.name'' = Some (AStr v) \<and> v \<notin> set ds"
  then show fwd: "on_end ops p s = export_span ops p s"
    by (auto simp: on_end_def Let_def operation_in_def empty_criteria_def)
  then show "calls (exporter (fst (on_end ops p s))) = calls (exporter p) @ [Export [s]]"
    by (simp add: calls_export_span)
next
  assume "attributes s ''gen_ai.operation.name'' = Some (AStr v) \<and> v \<in> set ns"
  then show "on_end_outcome ops ex (fc\<lparr>operation_names := Some ns\<rparr>) s =
      on_end_outcome ops ex (fc\<lparr>operation_names := None\<rparr>) s"
    by (auto simp: on_end_outcome_eq on_end_def Let_def operation_in_def exporter_export_span)
next
  assume "attributes s ''gen_ai.operation.name'' = Some (AStr v) \<and> v \<notin> set ds"
  then show "on_end_outcome ops ex (fc\<lparr>exclude_operations := Some ds\<rparr>) s =
      on_end_outcome ops ex (fc\<lparr>exclude_operations := None\<rparr>) s"
    by (auto simp: on_end_outcome_eq on_end_def Let_def operation_in_def exporter_export_span)
next
  assume same: "m ''gen_ai.operation.name'' = attributes s ''gen_ai.operation.name''"
  then show "(on_end ops p (s\<lparr>attributes := m\<rparr>) = (p, Inr ())) = (on_end ops p s = (p, Inr ()))"
    by (simp add: on_end_checks passes_attributes_cong export_span_not_noop)
  from same show "(calls (exporter (fst (on_end ops p (s\<lparr>attributes := m\<rparr>)))) =
         calls (exporter p) @ [Export [s\<lparr>attributes := m\<rparr>]]) =
      (calls (exporter (fst (on_end ops p s))) = calls (exporter p) @ [Export [s]])"
    by (simp add: on_end_checks passes_attributes_cong calls_export_span)
qed

theorem operation_key_is_fixed_witness:
  "on_end counting_exporter (init fresh (Some (empty_criteria\<lparr>operation_names := Some [''chat'']\<rparr>)))
       (mk_span ''embed'' INTERNAL 0 1 [(''gen_ai.operation.name'', AStr ''embeddings'')]) =
     (init fresh (Some (empty_criteria\<lparr>operation_names := Some [''chat'']\<rparr>)), Inr ()) \<and>
   on_end counting_exporter (init fresh (Some (empty_criteria\<lparr>exclude_operations := Some [''chat'']\<rparr>)))
       (mk_span ''chat'' INTERNAL 0 1 [(''gen_ai.operation.name'', AStr ''chat'')]) =
     (init fresh (Some (empty_criteria\<lparr>exclude_operations := Some [''chat'']\<rparr>)), Inr ()) \<and>
   calls (exporter (fst (on_end counting_exporter
       (init fresh (Some (empty_criteria\<lparr>operation_names := Some [''chat'']\<rparr>)))
       (mk_span ''chat'' INTERNAL 0 1 [(''gen_ai.operation.name'', AStr ''chat'')])))) =
     [Export [mk_span ''chat'' INTERNAL 0 1 [(''gen_ai.operation.name'', AStr ''chat'')]]] \<and>
   calls (exporter (fst (on_end counting_exporter
       (init fresh (Some (empty_criteria\<lparr>exclude_operations := Some [''chat'']\<rparr>)))
       (mk_span ''embed'' INTERNAL 0 1 [(''gen_ai.operation.name'', AStr ''embeddings'')])))) =
     [Export [mk_span ''embed'' INTERNAL 0 1 [(''gen_ai.operation.name'', AStr ''embeddings'')]]] \<and>
   map_of [(''operation.name'', AStr ''chat'')] ''gen_ai.operation.name'' =
     attributes (mk_span ''chat'' INTERNAL 0 1 []) ''gen_ai.operation.name'' \<and>
   on_end counting_exporter (init fresh (Some (empty_criteria\<lparr>operation_names := Some [''chat'']\<rparr>)))
       (mk_span ''chat'' INTERNAL 0 1 [(''operation.name'', AStr ''chat'')]) =
     (init fresh (Some (empty_criteria\<lparr>operation_names := Some [''chat'']\<rparr>)), Inr ()) \<and>
   calls (exporter (fst (on_end counting_exporter
       (init fresh (Some (empty_criteria\<lparr>exclude_operations := Some [''chat'']\<rparr>)))
       (mk_span ''chat'' INTERNAL 0 1 [(''operation.name'', AStr ''chat'')])))) =
     [Export [mk_span ''chat'' INTERNAL 0 1 [(''operation.name'', AStr ''chat'')]]]"
  using
    operation_key_is_fixed [where s = "mk_span ''embed'' INTERNAL 0 1 [(''gen_ai.operation.name'', AStr ''embeddings'')]"
      and ns = "[''chat'']" and v = "''embeddings''" and ops = counting_exporter
      and p = "init fresh (Some (empty_criteria\<lparr>operation_names := Some [''chat'']\<rparr>))",
      THEN conjunct1]
    operation_key_is_fixed [where s = "mk_span ''chat'' INTERNAL 0 1 [(''gen_ai.operation.name'', AStr ''chat'')]"
      and ds = "[''chat'']" and v = "''chat''" and ops = counting_exporter
      and p = "init fresh (Some (empty_criteria\<lparr>exclude_operations := Some [''chat'']\<rparr>))",
      THEN conjunct2, THEN conjunct1]
    operation_key_is_fixed [where s = "mk_span ''chat'' INTERNAL 0 1 [(''gen_ai.operation.name'', AStr ''chat'')]"
      and ns = "[''chat'']" and v = "''chat''" and ops = counting_exporter
      and p = "init fresh (Some (empty_criteria\<lparr>operation_names := Some [''chat'']\<rparr>))",
      THEN conjunct2, THEN conjunct2, THEN conjunct1]
    operation_key_is_fixed [where s = "mk_span ''embed'' INTERNAL 0 1 [(''gen_ai.operation.name'', AStr ''embeddings'')]"
      and ds = "[''chat'']" and v = "''embeddings''" and ops = counting_exporter
      and p = "init fresh (Some (empty_criteria\<lparr>exclude_operations := Some [''chat'']\<rparr>))",
      THEN conjunct2, THEN conjunct2, THEN conjunct2, THEN conjunct1]
    operation_key_is_fixed [where s = "mk_span ''chat'' INTERNAL 0 1 []"
      and m = "map_of [(''operation.name'', AStr ''chat'')]" and ops = counting_exporter
      and p = "init fresh (Some (empty_criteria\<lparr>operation_names := Some [''chat'']\<rparr>))",
      THEN conjunct2, THEN conjunct2, THEN conjunct2, THEN conjunct2, THEN conjunct2,
      THEN conjunct2]
    operation_key_is_fixed [where s = "mk_span ''chat'' INTERNAL 0 1 []"
      and m = "map_of [(''operation.name'', AStr ''chat'')]" and ops = counting_exporter
      and p = "init fresh (Some (empty_criteria\<lparr>exclude_operations := Some [''chat'']\<rparr>))",
      THEN conjunct2, THEN conjunct2, THEN conjunct2, THEN conjunct2, THEN conjunct2,
      THEN conjunct2]
  by (simp add: init_def fresh_def empty_criteria_def mk_span_def on_end_def Let_def
      operation_in_def export_span_def exporter_export_def counting_exporter_def)

text \<open>
  Claim C10.  A criterion that is set to a falsy value, the empty collection for
  \<open>include_names\<close>, \<open>operation_names\<close>, \<open>exclude_operations\<close> and \<open>exclude_span_kinds\<close>, the
  number 0 for \<open>min_duration_ms\<close>, acts exactly as the same criterion left unset, for every
  span and whatever the other criteria are.  In particular an empty \<open>operation_names\<close>
  alone forwards every span.
\<close>

theorem falsy_criterion_is_unset:
  "on_end_outcome ops ex (fc\<lparr>include_names := Some []\<rparr>) s =
     on_end_outcome ops ex (fc\<lparr>include_names := None\<rparr>) s \<and>
   on_end_outcome ops ex (fc\<lparr>operation_names := Some []\<rparr>) s =
     on_end_outcome ops ex (fc\<lparr>operation_names := None\<rparr>) s \<and>
   on_end_outcome ops ex (fc\<lparr>min_duration_ms := Some 0\<rparr>) s =
     on_end_outcome ops ex (fc\<lparr>min_duration_ms := None\<rparr>) s \<and>
   on_end_outcome ops ex (fc\<lparr>exclude_operations := Some []\<rparr>) s =
     on_end_outcome ops ex (fc\<lparr>exclude_operations := None\<rparr>) s \<and>
   on_end_outcome ops ex (fc\<lparr>exclude_span_kinds := Some []\<rparr>) s =
     on_end_outcome ops ex (fc\<lparr>exclude_span_kinds := None\<rparr>) s \<and>
   calls (fst (on_end_outcome ops ex (empty_criteria\<lparr>operation_names := Some []\<rparr>) s)) =
     calls ex @ [Export [s]]"
  by (simp add: on_end_outcome_eq on_end_def Let_def exporter_export_span empty_criteria_def
      exporter_export_def split: prod.splits)

theorem falsy_criterion_is_unset_witness:
  "on_end_outcome counting_exporter fresh
       \<lparr>include_names = Some [], operation_names = Some [], min_duration_ms = Some 0,
        exclude_operations = Some [], exclude_span_kinds = Some []\<rparr>
       (mk_span ''x'' CLIENT 0 0 []) =
     (\<lparr>calls = [Export [mk_span ''x'' CLIENT 0 0 []]], est = (1, False)\<rparr>, Inr ()) \<and>
   calls (fst (on_end_outcome counting_exporter fresh (empty_criteria\<lparr>operation_names := Some []\<rparr>)
       (mk_span ''x'' CLIENT 0 0 []))) = [Export [mk_span ''x'' CLIENT 0 0 []]]"
  using
    falsy_criterion_is_unset [where ops = counting_exporter and ex = fresh
      and s = "mk_span ''x'' CLIENT 0 0 []" and fc = empty_criteria]
  by (simp add: on_end_outcome_def init_def fresh_def empty_criteria_def on_end_def Let_def
      export_span_def exporter_export_def counting_exporter_def)

end
